theory Spec2Isabelle
  imports Main
begin

section \<open>Strings as Python uses them\<close>

text \<open>
  A Python \<^verbatim>\<open>str\<close> or \<^verbatim>\<open>bytes\<close> value is a \<^typ>\<open>string\<close>: a
  \<^typ>\<open>char\<close> is a code point below 256 of a \<^verbatim>\<open>str\<close>, a byte of a \<^verbatim>\<open>bytes\<close>.
  The arguments \<^verbatim>\<open>title\<close>, \<^verbatim>\<open>author\<close> and \<^verbatim>\<open>borough\<close> of a search can also be
  \<^verbatim>\<open>None\<close> (the command line leaves an option that was not given at \<^verbatim>\<open>None\<close>), so
  they are \<^typ>\<open>string option\<close>. \<open>truthy\<close> is Python's truth value of such an argument:
  \<^verbatim>\<open>None\<close> and the empty string are false.
\<close>

definition truthy :: "string option \<Rightarrow> bool" where
  "truthy v = (case v of None \<Rightarrow> False | Some s \<Rightarrow> s \<noteq> [])"

text \<open>
  \<^verbatim>\<open>str.lower()\<close>: of the code points below 256 it changes the letters \<^verbatim>\<open>A\<close> to
  \<^verbatim>\<open>Z\<close> (65 to 90) and the capital letters from 192 to 222, but for the multiplication
  sign 215, each to the code point 32 above it.
\<close>

definition lower_char :: "char \<Rightarrow> char" where
  "lower_char c =
     (let n = (of_char c :: nat)
      in if (65 \<le> n \<and> n \<le> 90) \<or> (192 \<le> n \<and> n \<le> 222 \<and> n \<noteq> 215) then char_of (n + 32)
         else c)"

definition lower :: "string \<Rightarrow> string" where
  "lower s = map lower_char s"

text \<open>\<^verbatim>\<open>s.find(sub)\<close>: the index of the first occurrence of \<open>sub\<close> in \<open>s\<close>, or \<open>-1\<close>.\<close>

fun find_from :: "string \<Rightarrow> string \<Rightarrow> int \<Rightarrow> int" where
  "find_from sub [] i = (if sub = [] then i else - 1)"
| "find_from sub (c # cs) i =
     (if take (length sub) (c # cs) = sub then i else find_from sub cs (i + 1))"

definition find_str :: "string \<Rightarrow> string \<Rightarrow> int" where
  "find_str s sub = find_from sub s 0"

text \<open>
  The characters \<^verbatim>\<open>str.strip()\<close> removes and on which bs4 splits a class attribute
  (\<^verbatim>\<open>str.isspace()\<close>, which is also \<^verbatim>\<open>\s\<close> of a \<^verbatim>\<open>str\<close> pattern): tab to
  carriage return, the four separators 28 to 31, the space, and of the code points from
  128 the next-line character 133 and the no-break space 160.
\<close>

definition is_space :: "char \<Rightarrow> bool" where
  "is_space c =
     (let n = (of_char c :: nat)
      in (9 \<le> n \<and> n \<le> 13) \<or> (28 \<le> n \<and> n \<le> 32) \<or> n = 133 \<or> n = 160)"

definition strip :: "string \<Rightarrow> string" where
  "strip s = rev (dropWhile is_space (rev (dropWhile is_space s)))"

fun split_ws :: "string \<Rightarrow> string \<Rightarrow> string list" where
  "split_ws cur [] = (if cur = [] then [] else [cur])"
| "split_ws cur (c # cs) =
     (if is_space c then (if cur = [] then split_ws [] cs else cur # split_ws [] cs)
      else split_ws (cur @ [c]) cs)"

fun join :: "string list \<Rightarrow> string" where
  "join [] = []"
| "join [w] = w"
| "join (w # v # ws) = w @ '' '' @ join (v # ws)"

text \<open>
  \<^verbatim>\<open>re.search(r'items/([0-9]+)\?', s)\<close>, returning group 1 of the leftmost match.
  At a given start the digits are matched greedily and the next character must be
  \<^verbatim>\<open>?\<close>; giving digits back cannot help, since the character after a shorter run is a
  digit.
\<close>

definition is_digit :: "char \<Rightarrow> bool" where
  "is_digit c = (let n = (of_char c :: nat) in 48 \<le> n \<and> n \<le> 57)"

definition match_items_at :: "string \<Rightarrow> string option" where
  "match_items_at s =
     (if take 6 s = ''items/'' then
        (let ds = takeWhile is_digit (drop 6 s); rest = dropWhile is_digit (drop 6 s)
         in if ds \<noteq> [] \<and> take 1 rest = ''?'' then Some ds else None)
      else None)"

fun re_search_items :: "string \<Rightarrow> string option" where
  "re_search_items [] = None"
| "re_search_items (c # cs) =
     (case match_items_at (c # cs) of Some ds \<Rightarrow> Some ds | None \<Rightarrow> re_search_items cs)"

text \<open>
  \<^verbatim>\<open>re.compile(r'item-status .*').search(s)\<close>: \<^verbatim>\<open>.*\<close> also matches the empty string,
  so the search succeeds exactly when \<open>s\<close> contains \<^verbatim>\<open>item-status\<close> and a space.
\<close>

definition re_item_status :: "string \<Rightarrow> bool" where
  "re_item_status s = (find_str s ''item-status '' > - 1)"

section \<open>Python exceptions and the outside world\<close>

datatype exception = KeyError | TypeError

text \<open>
  What the program does to the outside: the URLs it has handed to \<^verbatim>\<open>requests.get\<close>, in
  order, and the lines it has printed.
\<close>

record io =
  fetched :: "string list"
  stdout :: "string list"

definition log_error :: "string \<Rightarrow> io \<Rightarrow> io" where
  "log_error e w = w\<lparr>stdout := stdout w @ [e]\<rparr>"

text \<open>
  A response of \<^verbatim>\<open>requests\<close>: \<^verbatim>\<open>headers\<close> is a case-insensitive dictionary, kept here
  as the list of its entries. The outcome of a GET is a response or a
  \<^verbatim>\<open>RequestException\<close> (with its \<^verbatim>\<open>str\<close>); an error while the body is read is a
  \<^verbatim>\<open>RequestException\<close> too and is caught by the same handler, so it is that outcome.
\<close>

record response =
  status_code :: int
  headers :: "(string \<times> string) list"
  content :: string

datatype http_outcome = RequestException string | Response response

text \<open>
  \<^verbatim>\<open>resp.headers[key]\<close>: the lookup ignores case and raises KeyError on a missing key.
  In \<^verbatim>\<open>is_good_response\<close> the lookup and \<^verbatim>\<open>.lower()\<close> come first, so the test
  \<^verbatim>\<open>content_type is not None\<close> that follows is true whenever it is reached.
\<close>

definition headers_getitem :: "(string \<times> string) list \<Rightarrow> string \<Rightarrow> exception + string" where
  "headers_getitem hs key =
     (case map_of (map (\<lambda>(k, v). (lower k, v)) hs) (lower key) of
        None \<Rightarrow> Inl KeyError
      | Some v \<Rightarrow> Inr v)"

definition is_good_response :: "response \<Rightarrow> exception + bool" where
  "is_good_response resp =
     (case headers_getitem (headers resp) ''Content-Type'' of
        Inl e \<Rightarrow> Inl e
      | Inr ct \<Rightarrow>
          (let content_type = lower ct
           in Inr (status_code resp = 200 \<and> find_str content_type ''html'' > - 1)))"

text \<open>
  \<^verbatim>\<open>simple_get\<close>: only a \<^verbatim>\<open>RequestException\<close> is caught; an exception of
  \<^verbatim>\<open>is_good_response\<close> leaves the function. \<open>web\<close> is what a GET of each URL yields.
\<close>

definition simple_get ::
  "(string \<Rightarrow> http_outcome) \<Rightarrow> string \<Rightarrow> io \<Rightarrow> (exception + string option) \<times> io" where
  "simple_get web url w =
     (let w1 = w\<lparr>fetched := fetched w @ [url]\<rparr> in
      case web url of
        RequestException e \<Rightarrow>
          (Inr None, log_error (''Error during requests to '' @ url @ '' : '' @ e) w1)
      | Response resp \<Rightarrow>
          (case is_good_response resp of
             Inl err \<Rightarrow> (Inl err, w1)
           | Inr good \<Rightarrow> (if good then (Inr (Some (content resp)), w1) else (Inr None, w1))))"

section \<open>The document tree\<close>

text \<open>
  A parsed document is a tree of tags and strings, as bs4 builds it: a tag has a name,
  its attribute dictionary and its children.
\<close>

datatype node = Text string | Element string "(string \<times> string) list" "node list"

fun descendants :: "node \<Rightarrow> node list" where
  "descendants (Text s) = []"
| "descendants (Element nm attrs kids) = concat (map (\<lambda>k. k # descendants k) kids)"

fun text_of :: "node \<Rightarrow> string" where
  "text_of (Text s) = s"
| "text_of (Element nm attrs kids) = concat (map text_of kids)"

fun tag_name :: "node \<Rightarrow> string option" where
  "tag_name (Text s) = None"
| "tag_name (Element nm attrs kids) = Some nm"

fun attr :: "node \<Rightarrow> string \<Rightarrow> string option" where
  "attr (Text s) key = None"
| "attr (Element nm attrs kids) key = map_of attrs key"

text \<open>\<^verbatim>\<open>tag.get(key, default)\<close>.\<close>

definition get_attr :: "node \<Rightarrow> string \<Rightarrow> string \<Rightarrow> string" where
  "get_attr n key dflt = (case attr n key of None \<Rightarrow> dflt | Some v \<Rightarrow> v)"

text \<open>
  The three shapes of CSS selector the program passes to \<^verbatim>\<open>select\<close>: \<^verbatim>\<open>tag\<close>,
  \<^verbatim>\<open>tag#id\<close> and \<^verbatim>\<open>tag.class\<close>. \<^verbatim>\<open>select\<close> returns the matching descendants in
  document order.
\<close>

datatype selector = Tag string | TagId string string | TagClass string string

fun matches :: "selector \<Rightarrow> node \<Rightarrow> bool" where
  "matches (Tag t) n = (tag_name n = Some t)"
| "matches (TagId t i) n = (tag_name n = Some t \<and> attr n ''id'' = Some i)"
| "matches (TagClass t c) n =
     (tag_name n = Some t \<and>
      (case attr n ''class'' of None \<Rightarrow> False | Some v \<Rightarrow> c \<in> set (split_ws [] v)))"

definition select :: "selector \<Rightarrow> node \<Rightarrow> node list" where
  "select sel n = filter (matches sel) (descendants n)"

text \<open>
  \<^verbatim>\<open>tag.findAll(name, {key: value})\<close>, where the value is a string or a compiled
  regular expression. bs4 keeps \<^verbatim>\<open>class\<close> as the list of its tokens: such an attribute
  matches when one token does or the tokens joined by spaces do.
\<close>

datatype matcher = Str string | Regex "string \<Rightarrow> bool"

fun matches_value :: "matcher \<Rightarrow> string \<Rightarrow> bool" where
  "matches_value (Str s) v = (v = s)"
| "matches_value (Regex p) v = p v"

definition attr_matches :: "string \<Rightarrow> matcher \<Rightarrow> node \<Rightarrow> bool" where
  "attr_matches key m n =
     (case attr n key of
        None \<Rightarrow> False
      | Some v \<Rightarrow>
          if key = ''class'' then
            (let toks = split_ws [] v
             in list_ex (matches_value m) toks \<or> matches_value m (join toks))
          else matches_value m v)"

definition findAll :: "string \<Rightarrow> string \<Rightarrow> matcher \<Rightarrow> node \<Rightarrow> node list" where
  "findAll nm key m n =
     filter (\<lambda>d. tag_name d = Some nm \<and> attr_matches key m d) (descendants n)"

text \<open>
  \<^verbatim>\<open>BeautifulSoup(markup, 'html.parser')\<close>. The tree the parser builds from the bytes is
  the parameter \<open>html_parser\<close>. bs4 takes \<^verbatim>\<open>len(markup)\<close> of a markup that is not a
  file, so \<^verbatim>\<open>None\<close> raises TypeError.
\<close>

definition BeautifulSoup :: "(string \<Rightarrow> node list) \<Rightarrow> string option \<Rightarrow> exception + node" where
  "BeautifulSoup html_parser markup =
     (case markup of
        None \<Rightarrow> Inl TypeError
      | Some m \<Rightarrow> Inr (Element ''[document]'' [] (html_parser m)))"

section \<open>The records\<close>

text \<open>
  \<^verbatim>\<open>barcode\<close> starts as the integer 0 and is assigned the text of a tag, so it holds
  either kind of value.
\<close>

datatype pyval = IntVal int | StrVal string

record CatalogueItem =
  status :: string
  barcode :: pyval
  shelfmark :: string
  item_type :: string

definition CatalogueItem_init :: CatalogueItem where
  "CatalogueItem_init = \<lparr>status = [], barcode = IntVal 0, shelfmark = [], item_type = []\<rparr>"

definition CatalogueItem_is_available :: "CatalogueItem \<Rightarrow> bool" where
  "CatalogueItem_is_available self = (lower (status self) = ''available'')"

record BranchResultItem =
  name :: string
  items :: "CatalogueItem list"

definition BranchResultItem_init :: BranchResultItem where
  "BranchResultItem_init = \<lparr>name = [], items = []\<rparr>"

definition add_item :: "CatalogueItem \<Rightarrow> BranchResultItem \<Rightarrow> BranchResultItem" where
  "add_item cat_item self = self\<lparr>items := items self @ [cat_item]\<rparr>"

text \<open>The loop of \<^verbatim>\<open>BranchResultItem.is_available\<close> over \<^verbatim>\<open>self.items\<close>.\<close>

fun any_available :: "CatalogueItem list \<Rightarrow> bool" where
  "any_available [] = False"
| "any_available (i # rest) = (if CatalogueItem_is_available i then True else any_available rest)"

definition BranchResultItem_is_available :: "BranchResultItem \<Rightarrow> bool" where
  "BranchResultItem_is_available self = any_available (items self)"

record SearchResultItem =
  item_id :: string
  title :: string
  publisher :: string
  link :: string
  summary :: string
  available :: string
  branches :: "BranchResultItem list"

definition SearchResultItem_init :: SearchResultItem where
  "SearchResultItem_init =
     \<lparr>item_id = ''default'', title = ''default'', publisher = ''default'', link = ''default'',
      summary = ''default'', available = ''default'', branches = []\<rparr>"

definition add_branch_result :: "BranchResultItem \<Rightarrow> SearchResultItem \<Rightarrow> SearchResultItem" where
  "add_branch_result bri self = self\<lparr>branches := branches self @ [bri]\<rparr>"

record CapitaSearch =
  borough_url :: string
  search_url :: string
  items_found :: "SearchResultItem list"
  error_message :: string

definition capita_url :: string where
  "capita_url = ''https://capitadiscovery.co.uk/''"

definition default_borough :: string where
  "default_borough = ''islington''"

section \<open>Extraction of one branch\<close>

text \<open>The body of the loop over the rows of the table: one \<^verbatim>\<open>CatalogueItem\<close> per row.\<close>

definition row_item :: "node \<Rightarrow> CatalogueItem" where
  "row_item row =
     (let citem = CatalogueItem_init;
          citem = (case findAll ''span'' ''itemprop'' (Str ''serialNumber'') row of
                     [] \<Rightarrow> citem
                   | p # ps \<Rightarrow> citem\<lparr>barcode := StrVal (text_of p)\<rparr>);
          citem = (case findAll ''span'' ''itemprop'' (Str ''sku'') row of
                     [] \<Rightarrow> citem
                   | p # ps \<Rightarrow> citem\<lparr>shelfmark := text_of p\<rparr>);
          citem = (case findAll ''td'' ''class'' (Str ''loan'') row of
                     [] \<Rightarrow> citem
                   | p # ps \<Rightarrow> citem\<lparr>item_type := text_of p\<rparr>);
          citem = (case findAll ''td'' ''class'' (Regex re_item_status) row of
                     [] \<Rightarrow> citem
                   | p # ps \<Rightarrow> citem\<lparr>status := strip (text_of p)\<rparr>)
      in citem)"

fun add_rows :: "node list \<Rightarrow> BranchResultItem \<Rightarrow> BranchResultItem" where
  "add_rows [] bri = bri"
| "add_rows (row # rest) bri = add_rows rest (add_item (row_item row) bri)"

definition getBranchResultItem :: "node \<Rightarrow> BranchResultItem" where
  "getBranchResultItem branch =
     (let bri = BranchResultItem_init in
      case findAll ''span'' ''itemprop'' (Str ''name'') branch of
        [] \<Rightarrow> bri
      | name_span # spans \<Rightarrow>
          (let bri = bri\<lparr>name := text_of name_span\<rparr> in
           case select (Tag ''tbody'') branch of
             [] \<Rightarrow> bri
           | tbody # others \<Rightarrow> add_rows (select (Tag ''tr'') tbody) bri))"

section \<open>One search\<close>

text \<open>
  The namespace URL and the search URL, as \<^verbatim>\<open>CapitaSearch.__init__\<close> builds them. The
  title and the author are inserted as they are given.
\<close>

definition build_borough_url :: "string option \<Rightarrow> string" where
  "build_borough_url borough' =
     capita_url @ (if truthy borough' then (case borough' of Some b \<Rightarrow> b | None \<Rightarrow> default_borough)
                   else default_borough) @ ''/''"

definition build_search_url :: "string \<Rightarrow> string option \<Rightarrow> string option \<Rightarrow> string" where
  "build_search_url b_url title' author' =
     (let url = b_url @ ''items?query='';
          url = (case title' of
                   None \<Rightarrow> url
                 | Some t \<Rightarrow> if t \<noteq> [] then url @ ''+title%3A%28'' @ t @ ''%29'' else url);
          url = (case author' of
                   None \<Rightarrow> url
                 | Some a \<Rightarrow>
                     if a \<noteq> [] then
                       (if truthy title' then
                          ((url @ ''+AND'') @ ''+author%3A%28'' @ a @ ''%29'') @ ''#availability''
                        else url)
                     else url)
      in url)"

text \<open>
  The fields of a new item that come from its block of the listing page: the title and
  the link from the anchor of the heading, the publisher and the summary.
\<close>

definition listing_fields :: "string \<Rightarrow> node \<Rightarrow> SearchResultItem" where
  "listing_fields b_url summary_div =
     (let new_item = SearchResultItem_init;
          new_item =
            (case select (TagClass ''h2'' ''title'') summary_div of
               [] \<Rightarrow> new_item
             | h2 # h2s \<Rightarrow>
                 (case select (Tag ''a'') h2 of
                    [] \<Rightarrow> new_item
                  | a # anchors \<Rightarrow>
                      (let new_item = new_item\<lparr>title := get_attr a ''title'' ''NOT FOUND''\<rparr>;
                           temp_link = get_attr a ''href'' ''NOT FOUND''
                       in case re_search_items temp_link of
                            None \<Rightarrow> new_item
                          | Some group1 \<Rightarrow>
                              (let new_item = new_item\<lparr>item_id := group1\<rparr>
                               in new_item\<lparr>link := b_url @ ''items/'' @ item_id new_item\<rparr>))));
          new_item =
            (case select (TagClass ''div'' ''publisher'') summary_div of
               [] \<Rightarrow> new_item
             | div_pub # pubs \<Rightarrow>
                 (case select (TagClass ''span'' ''publisher'') div_pub of
                    [] \<Rightarrow> new_item
                  | span # spans \<Rightarrow> new_item\<lparr>publisher := text_of span\<rparr>));
          new_item =
            (case select (TagClass ''div'' ''summarydetail'') summary_div of
               [] \<Rightarrow> new_item
             | div_summ # summs \<Rightarrow>
                 (case select (TagClass ''span'' ''summarydetail'') div_summ of
                    [] \<Rightarrow> new_item
                  | span # spans \<Rightarrow> new_item\<lparr>summary := text_of span\<rparr>))
      in new_item)"

text \<open>The loop over the \<^verbatim>\<open>li\<close> elements of the options list.\<close>

fun add_branches :: "node list \<Rightarrow> SearchResultItem \<Rightarrow> SearchResultItem" where
  "add_branches [] new_item = new_item"
| "add_branches (li_branch # rest) new_item =
     add_branches rest (add_branch_result (getBranchResultItem li_branch) new_item)"

text \<open>What the detail page adds to the item: the availability line and the branches.\<close>

definition availability :: "node \<Rightarrow> SearchResultItem \<Rightarrow> SearchResultItem" where
  "availability html new_item =
     (case select (TagId ''div'' ''availability'') html of
        [] \<Rightarrow> new_item
      | div_avail # avails \<Rightarrow>
          (let new_item =
                 (case select (TagClass ''div'' ''status'') div_avail of
                    [] \<Rightarrow> new_item
                  | avail_status # stats \<Rightarrow>
                      (case select (TagClass ''p'' ''branches'') avail_status of
                         [] \<Rightarrow> new_item
                       | p_branches # ps \<Rightarrow> new_item\<lparr>available := text_of p_branches\<rparr>));
               new_item =
                 (case select (TagClass ''ul'' ''options'') div_avail of
                    [] \<Rightarrow> new_item
                  | ul_options # uls \<Rightarrow> add_branches (select (Tag ''li'') ul_options) new_item)
           in new_item))"

text \<open>
  The body of the inner loop: the item of one \<^verbatim>\<open>div.summary\<close> block. The detail page
  is fetched from \<^verbatim>\<open>new_item.link\<close> whatever the link is, and what \<^verbatim>\<open>simple_get\<close>
  returns goes to \<^verbatim>\<open>BeautifulSoup\<close> unchecked. An exception leaves the constructor.
\<close>

definition result_step ::
  "(string \<Rightarrow> node list) \<Rightarrow> (string \<Rightarrow> http_outcome) \<Rightarrow> string \<Rightarrow> node \<Rightarrow>
   SearchResultItem list \<Rightarrow> io \<Rightarrow> (exception + SearchResultItem list) \<times> io" where
  "result_step html_parser web b_url summary_div found w =
     (let new_item = listing_fields b_url summary_div in
      case simple_get web (link new_item) w of
        (Inl e, w1) \<Rightarrow> (Inl e, w1)
      | (Inr raw, w1) \<Rightarrow>
          (case BeautifulSoup html_parser raw of
             Inl e \<Rightarrow> (Inl e, w1)
           | Inr html \<Rightarrow> (Inr (found @ [availability html new_item]), w1)))"

fun summary_loop ::
  "(string \<Rightarrow> node list) \<Rightarrow> (string \<Rightarrow> http_outcome) \<Rightarrow> string \<Rightarrow> node list \<Rightarrow>
   SearchResultItem list \<Rightarrow> io \<Rightarrow> (exception + SearchResultItem list) \<times> io" where
  "summary_loop html_parser web b_url [] found w = (Inr found, w)"
| "summary_loop html_parser web b_url (d # ds) found w =
     (case result_step html_parser web b_url d found w of
        (Inl e, w1) \<Rightarrow> (Inl e, w1)
      | (Inr found1, w1) \<Rightarrow> summary_loop html_parser web b_url ds found1 w1)"

text \<open>
  The outer loop, over the \<^verbatim>\<open>div#searchResults\<close> blocks. Its list is computed before
  the loop starts, so the assignment to \<^verbatim>\<open>html\<close> in the body does not change it.
\<close>

fun results_loop ::
  "(string \<Rightarrow> node list) \<Rightarrow> (string \<Rightarrow> http_outcome) \<Rightarrow> string \<Rightarrow> node list \<Rightarrow>
   SearchResultItem list \<Rightarrow> io \<Rightarrow> (exception + SearchResultItem list) \<times> io" where
  "results_loop html_parser web b_url [] found w = (Inr found, w)"
| "results_loop html_parser web b_url (search_results # rest) found w =
     (case summary_loop html_parser web b_url
             (select (TagClass ''div'' ''summary'') search_results) found w of
        (Inl e, w1) \<Rightarrow> (Inl e, w1)
      | (Inr found1, w1) \<Rightarrow> results_loop html_parser web b_url rest found1 w1)"

definition invalid_query_message :: string where
  "invalid_query_message = ''IslingtonSearch: must supply title and/or author'' @ [CHR 0x0A]"

text \<open>
  \<^verbatim>\<open>CapitaSearch(title, author, borough)\<close>: the object built, or the exception that left
  the constructor, and the state of the outside after it.
\<close>

definition CapitaSearch_init ::
  "(string \<Rightarrow> node list) \<Rightarrow> (string \<Rightarrow> http_outcome) \<Rightarrow>
   string option \<Rightarrow> string option \<Rightarrow> string option \<Rightarrow> io \<Rightarrow> (exception + CapitaSearch) \<times> io" where
  "CapitaSearch_init html_parser web title' author' borough' w =
     (let self = \<lparr>borough_url = [], search_url = [], items_found = [], error_message = []\<rparr> in
      if \<not> (truthy title' \<or> truthy author') then (Inr self, log_error invalid_query_message w)
      else
        (let self = self\<lparr>borough_url := build_borough_url borough'\<rparr>;
             self = self\<lparr>search_url := build_search_url (borough_url self) title' author'\<rparr>
         in case simple_get web (search_url self) w of
              (Inl e, w1) \<Rightarrow> (Inl e, w1)
            | (Inr raw_html, w1) \<Rightarrow>
                if \<not> truthy raw_html then
                  (Inr (self\<lparr>error_message := ''could not get web page''\<rparr>), w1)
                else
                  (case BeautifulSoup html_parser raw_html of
                     Inl e \<Rightarrow> (Inl e, w1)
                   | Inr html \<Rightarrow>
                       (case results_loop html_parser web (borough_url self)
                               (select (TagId ''div'' ''searchResults'') html) (items_found self) w1 of
                          (Inl e, w2) \<Rightarrow> (Inl e, w2)
                        | (Inr found, w2) \<Rightarrow> (Inr (self\<lparr>items_found := found\<rparr>), w2)))))"

section \<open>Notions of the specification\<close>

text \<open>
  Case-insensitive equality of two strings, as the specification words it: the same
  length, and at each position the same letter up to case.
\<close>

definition spec_equal_ignoring_case :: "string \<Rightarrow> string \<Rightarrow> bool" where
  "spec_equal_ignoring_case a b = list_all2 (\<lambda>x y. lower_char x = lower_char y) a b"

text \<open>A table row in which none of the four lookups of the row loop finds a tag.\<close>

definition all_lookups_fail :: "node \<Rightarrow> bool" where
  "all_lookups_fail row =
     (findAll ''span'' ''itemprop'' (Str ''serialNumber'') row = [] \<and>
      findAll ''span'' ''itemprop'' (Str ''sku'') row = [] \<and>
      findAll ''td'' ''class'' (Str ''loan'') row = [] \<and>
      findAll ''td'' ''class'' (Regex re_item_status) row = [])"

text \<open>
  The search failed with InvalidQuery: the constructor printed the message of its first
  branch.
\<close>

definition invalid_query_logged :: "io \<Rightarrow> bool" where
  "invalid_query_logged w = (invalid_query_message \<in> set (stdout w))"

text \<open>The string \<open>s\<close> contains \<open>sub\<close>.\<close>

definition spec_contains :: "string \<Rightarrow> string \<Rightarrow> bool" where
  "spec_contains s sub = (\<exists>pre suf. s = pre @ sub @ suf)"

section \<open>Example documents\<close>

definition io0 :: io where
  "io0 = \<lparr>fetched = [], stdout = []\<rparr>"

definition html_response :: "string \<Rightarrow> http_outcome" where
  "html_response body =
     Response \<lparr>status_code = 200, headers = [(''Content-Type'', ''text/html; charset=UTF-8'')],
               content = body\<rparr>"

definition offline_web :: "string \<Rightarrow> http_outcome" where
  "offline_web url = RequestException ''Connection refused''"

definition no_content_type_web :: "string \<Rightarrow> http_outcome" where
  "no_content_type_web url =
     Response \<lparr>status_code = 200, headers = [(''Server'', ''nginx'')],
               content = ''<html></html>''\<rparr>"

definition empty_row :: node where
  "empty_row = Element ''tr'' [] [Element ''td'' [] [Text ''nothing'']]"

definition full_row :: node where
  "full_row = Element ''tr'' []
     [Element ''td'' [] [Element ''span'' [(''itemprop'', ''serialNumber'')] [Text ''30120'']],
      Element ''td'' [] [Element ''span'' [(''itemprop'', ''sku'')] [Text ''F GRO'']],
      Element ''td'' [(''class'', ''loan'')] [Text ''Adult Fiction''],
      Element ''td'' [(''class'', ''item-status available'')] [Text '' Available '']]"

text \<open>A row whose status cell has no-break spaces in its class and around its text.\<close>

definition nbsp_row :: node where
  "nbsp_row = Element ''tr'' []
     [Element ''td'' [(''class'', ''item-status'' @ [char_of (160 :: nat)] @ ''available'')]
        [Text ([char_of (160 :: nat)] @ ''Available'' @ [char_of (160 :: nat)])]]"

definition named_branch :: node where
  "named_branch = Element ''li'' []
     [Element ''span'' [(''itemprop'', ''name'')] [Text ''Central Library''],
      Element ''table'' [] [Element ''tbody'' [] [empty_row, full_row]]]"

definition unnamed_branch :: node where
  "unnamed_branch = Element ''li'' [] [Element ''table'' [] [Element ''tbody'' [] [full_row]]]"

definition detail_nodes :: "node list \<Rightarrow> node list" where
  "detail_nodes lis =
     [Element ''div'' [(''id'', ''availability'')]
        [Element ''div'' [(''class'', ''status'')]
           [Element ''p'' [(''class'', ''branches'')] [Text ''Available at 1 branch'']],
         Element ''ul'' [(''class'', ''options'')] lis]]"

definition detail_page :: "node list \<Rightarrow> node" where
  "detail_page lis = Element ''[document]'' [] (detail_nodes lis)"

text \<open>A detail page with one named branch, as HTML and as the tree of \<open>detail_nodes\<close>.\<close>

definition detail_html :: string where
  "detail_html =
     ''<div id=availability><div class=status><p class=branches>Available at 1 branch</p></div>'' @
     ''<ul class=options><li><span itemprop=name>Central Library</span><table><tbody>'' @
     ''<tr><td>nothing</td></tr>'' @
     ''<tr><td><span itemprop=serialNumber>30120</span></td><td><span itemprop=sku>F GRO</span></td>'' @
     ''<td class=loan>Adult Fiction</td><td class='item-status available'> Available </td></tr>'' @
     ''</tbody></table></li></ul></div>''"

text \<open>One block of a listing page: the anchor of its heading has the given \<^verbatim>\<open>href\<close>.\<close>

definition result_block :: "string \<Rightarrow> node" where
  "result_block href =
     Element ''div'' [(''class'', ''summary'')]
       [Element ''h2'' [(''class'', ''title'')]
          [Element ''a'' [(''title'', ''Diary''), (''href'', href)] [Text ''Diary'']],
        Element ''div'' [(''class'', ''publisher'')]
          [Element ''span'' [(''class'', ''publisher'')] [Text ''Penguin'']]]"

definition result_block_html :: "string \<Rightarrow> string" where
  "result_block_html href =
     ''<div class=summary><h2 class=title><a title=Diary href='' @ href @ ''>Diary</a></h2>'' @
     ''<div class=publisher><span class=publisher>Penguin</span></div></div>''"

definition listing_nodes :: "string list \<Rightarrow> node list" where
  "listing_nodes hrefs = [Element ''div'' [(''id'', ''searchResults'')] (map result_block hrefs)]"

definition listing_html :: "string list \<Rightarrow> string" where
  "listing_html hrefs =
     ''<div id=searchResults>'' @ concat (map result_block_html hrefs) @ ''</div>''"

text \<open>A listing page with one result whose link holds no item id, and one with three results.\<close>

definition no_id_hrefs :: "string list" where
  "no_id_hrefs = [''/islington/account'']"

definition three_hrefs :: "string list" where
  "three_hrefs = [''/islington/items/101?query=diary'', ''/islington/items/102?query=diary'',
                  ''/islington/items/103?query=diary'']"

text \<open>The parser, on the three example pages.\<close>

definition example_parser :: "string \<Rightarrow> node list" where
  "example_parser m =
     (if m = listing_html no_id_hrefs then listing_nodes no_id_hrefs
      else if m = listing_html three_hrefs then listing_nodes three_hrefs
      else if m = detail_html then detail_nodes [named_branch]
      else [])"

definition diary_search_url :: string where
  "diary_search_url = ''https://capitadiscovery.co.uk/islington/items?query=+title%3A%28diary%29''"

text \<open>
  A catalogue whose listing for the title \<^verbatim>\<open>diary\<close> has one result without an item
  id. \<^verbatim>\<open>requests\<close> refuses the URL \<^verbatim>\<open>default\<close> with MissingSchema, a
  \<^verbatim>\<open>RequestException\<close>.
\<close>

definition no_id_web :: "string \<Rightarrow> http_outcome" where
  "no_id_web url =
     (if url = diary_search_url then html_response (listing_html no_id_hrefs)
      else if url = ''default'' then
        RequestException ''Invalid URL 'default': No scheme supplied. Perhaps you meant https://default?''
      else RequestException ''Connection refused'')"

text \<open>
  A catalogue whose listing for the title \<^verbatim>\<open>diary\<close> has three results; the detail
  page of the second is answered with status 404, the other two with a detail page.
\<close>

definition one_missing_web :: "string \<Rightarrow> http_outcome" where
  "one_missing_web url =
     (if url = diary_search_url then html_response (listing_html three_hrefs)
      else if url = ''https://capitadiscovery.co.uk/islington/items/101'' then html_response detail_html
      else if url = ''https://capitadiscovery.co.uk/islington/items/102'' then
        Response \<lparr>status_code = 404, headers = [(''Content-Type'', ''text/html'')],
                  content = ''<h1>Not Found</h1>''\<rparr>
      else if url = ''https://capitadiscovery.co.uk/islington/items/103'' then html_response detail_html
      else RequestException ''Connection refused'')"

text \<open>The same catalogue with the detail page of the second result served as well.\<close>

definition all_served_web :: "string \<Rightarrow> http_outcome" where
  "all_served_web url =
     (if url = ''https://capitadiscovery.co.uk/islington/items/102'' then html_response detail_html
      else one_missing_web url)"


section \<open>Availability of an item and of a branch\<close>

lemma list_all2_fun_eq: "list_all2 (\<lambda>x y. f x = f y) xs ys = (map f xs = map f ys)"
  by (induction xs arbitrary: ys) (auto simp: list_all2_Cons1)

lemma lower_available: "lower ''available'' = ''available''"
  by (simp add: lower_def lower_char_def)

text \<open>
  C8: \<^verbatim>\<open>CatalogueItem.is_available()\<close> is true exactly when the status equals
  \<^verbatim>\<open>available\<close> up to case, and it is false for the status of a new item (the empty
  string).
\<close>

theorem CatalogueItem_is_available_iff:
  "CatalogueItem_is_available c = spec_equal_ignoring_case (status c) ''available''
   \<and> \<not> CatalogueItem_is_available CatalogueItem_init"
proof -
  have "(lower (status c) = ''available'') = (map lower_char (status c) = map lower_char ''available'')"
    using lower_available by (simp add: lower_def)
  then have "CatalogueItem_is_available c = spec_equal_ignoring_case (status c) ''available''"
    by (simp only: CatalogueItem_is_available_def spec_equal_ignoring_case_def list_all2_fun_eq)
  moreover have "\<not> CatalogueItem_is_available CatalogueItem_init"
    by (simp add: CatalogueItem_is_available_def CatalogueItem_init_def lower_def)
  ultimately show ?thesis by simp
qed

theorem CatalogueItem_is_available_witness:
  "CatalogueItem_is_available (CatalogueItem_init\<lparr>status := ''AvailABLE''\<rparr>)
   \<and> spec_equal_ignoring_case ''AvailABLE'' ''available''
   \<and> \<not> spec_equal_ignoring_case ''On loan'' ''available''"
proof -
  have a: "CatalogueItem_is_available (CatalogueItem_init\<lparr>status := ''AvailABLE''\<rparr>)"
    by code_simp
  have b: "\<not> CatalogueItem_is_available (CatalogueItem_init\<lparr>status := ''On loan''\<rparr>)"
    by code_simp
  show ?thesis
    using a b CatalogueItem_is_available_iff [of "CatalogueItem_init\<lparr>status := ''AvailABLE''\<rparr>"]
      CatalogueItem_is_available_iff [of "CatalogueItem_init\<lparr>status := ''On loan''\<rparr>"]
    by simp
qed

lemma any_available_iff: "any_available xs = (\<exists>i \<in> set xs. CatalogueItem_is_available i)"
  by (induction xs) auto

text \<open>
  C9: \<^verbatim>\<open>BranchResultItem.is_available()\<close> is true exactly when one of the items of the
  branch is available, and it is false for a branch with no items.
\<close>

theorem BranchResultItem_is_available_iff:
  "BranchResultItem_is_available b = (\<exists>i \<in> set (items b). CatalogueItem_is_available i)
   \<and> \<not> BranchResultItem_is_available (b\<lparr>items := []\<rparr>)"
  by (simp add: BranchResultItem_is_available_def any_available_iff)

theorem BranchResultItem_is_available_witness:
  "BranchResultItem_is_available (getBranchResultItem named_branch)
   \<and> (\<exists>i \<in> set (items (getBranchResultItem named_branch)). CatalogueItem_is_available i)
   \<and> \<not> BranchResultItem_is_available BranchResultItem_init"
proof -
  have a: "BranchResultItem_is_available (getBranchResultItem named_branch)"
    by code_simp
  have b: "\<not> BranchResultItem_is_available BranchResultItem_init"
    using BranchResultItem_is_available_iff [of BranchResultItem_init]
    by (simp add: BranchResultItem_init_def)
  show ?thesis
    using a b BranchResultItem_is_available_iff [of "getBranchResultItem named_branch"]
    by simp
qed

section \<open>The rows and the branches of a detail page\<close>

lemma add_rows_items: "items (add_rows rows bri) = items bri @ map row_item rows"
  by (induction rows arbitrary: bri) (auto simp: add_item_def)

lemma row_item_default:
  "all_lookups_fail row \<Longrightarrow>
   row_item row = \<lparr>status = [], barcode = IntVal 0, shelfmark = [], item_type = []\<rparr>"
  by (simp add: row_item_def all_lookups_fail_def CatalogueItem_init_def)

text \<open>
  C10: for a branch element with a name span and a \<^verbatim>\<open>tbody\<close>, the items of the branch
  are the items of the rows of the first \<^verbatim>\<open>tbody\<close>, one per row and in document order,
  so there are as many items as rows; a row in which every lookup fails gives the item
  with status \<^verbatim>\<open>''\<close>, barcode \<^verbatim>\<open>0\<close>, shelfmark \<^verbatim>\<open>''\<close> and type \<^verbatim>\<open>''\<close>.
\<close>

theorem getBranchResultItem_rows:
  assumes "findAll ''span'' ''itemprop'' (Str ''name'') branch \<noteq> []"
    and "select (Tag ''tbody'') branch = tbody # others"
  shows "items (getBranchResultItem branch) = map row_item (select (Tag ''tr'') tbody)
    \<and> length (items (getBranchResultItem branch)) = length (select (Tag ''tr'') tbody)
    \<and> (\<forall>i < length (select (Tag ''tr'') tbody).
          all_lookups_fail (select (Tag ''tr'') tbody ! i) \<longrightarrow>
          items (getBranchResultItem branch) ! i =
            \<lparr>status = [], barcode = IntVal 0, shelfmark = [], item_type = []\<rparr>)"
proof -
  obtain name_span spans
    where ns: "findAll ''span'' ''itemprop'' (Str ''name'') branch = name_span # spans"
    using assms(1) by (cases "findAll ''span'' ''itemprop'' (Str ''name'') branch") auto
  have eq: "items (getBranchResultItem branch) = map row_item (select (Tag ''tr'') tbody)"
    by (simp add: getBranchResultItem_def ns assms(2) add_rows_items BranchResultItem_init_def)
  show ?thesis
    by (simp add: eq row_item_default)
qed

theorem getBranchResultItem_rows_witness:
  "findAll ''span'' ''itemprop'' (Str ''name'') named_branch \<noteq> []
   \<and> select (Tag ''tbody'') named_branch = [Element ''tbody'' [] [empty_row, full_row]]
   \<and> select (Tag ''tr'') (Element ''tbody'' [] [empty_row, full_row]) = [empty_row, full_row]
   \<and> all_lookups_fail empty_row
   \<and> items (getBranchResultItem named_branch) = [row_item empty_row, row_item full_row]
   \<and> items (getBranchResultItem named_branch) ! 0 =
        \<lparr>status = [], barcode = IntVal 0, shelfmark = [], item_type = []\<rparr>"
proof -
  have h1: "findAll ''span'' ''itemprop'' (Str ''name'') named_branch \<noteq> []"
    by code_simp
  have h2: "select (Tag ''tbody'') named_branch = [Element ''tbody'' [] [empty_row, full_row]]"
    by code_simp
  have h3: "select (Tag ''tr'') (Element ''tbody'' [] [empty_row, full_row]) = [empty_row, full_row]"
    by code_simp
  have h4: "all_lookups_fail empty_row"
    by code_simp
  show ?thesis
    using getBranchResultItem_rows [OF h1 h2] h1 h2 h3 h4 by (simp add: row_item_default)
qed

text \<open>
  The no-break space is white space for the class list and for \<^verbatim>\<open>strip\<close>: the status
  cell of \<open>nbsp_row\<close> is found and its text is trimmed.
\<close>

lemma row_item_nbsp:
  "\<not> all_lookups_fail nbsp_row
   \<and> row_item nbsp_row =
        \<lparr>status = ''Available'', barcode = IntVal 0, shelfmark = [], item_type = []\<rparr>"
  by code_simp

lemma add_branches_branches:
  "branches (add_branches lis new_item) = branches new_item @ map getBranchResultItem lis"
  by (induction lis arbitrary: new_item) (auto simp: add_branch_result_def)

text \<open>
  C3, as the code has it: a branch element with no name span still gets a
  \<^verbatim>\<open>BranchResultItem\<close>, with the empty name and no items, and the loop over the options
  list appends one \<^verbatim>\<open>BranchResultItem\<close> per branch element, in document order, named
  or not.
\<close>

theorem unnamed_branch_appended:
  "(findAll ''span'' ''itemprop'' (Str ''name'') branch = [] \<longrightarrow>
      getBranchResultItem branch = \<lparr>name = [], items = []\<rparr>)
   \<and> branches (add_branches lis new_item) = branches new_item @ map getBranchResultItem lis"
  by (simp add: add_branches_branches getBranchResultItem_def BranchResultItem_init_def)

theorem unnamed_branch_appended_witness:
  "findAll ''span'' ''itemprop'' (Str ''name'') unnamed_branch = []
   \<and> getBranchResultItem unnamed_branch = \<lparr>name = [], items = []\<rparr>
   \<and> branches (add_branches [unnamed_branch, named_branch] SearchResultItem_init) =
        [\<lparr>name = [], items = []\<rparr>, getBranchResultItem named_branch]"
proof -
  have h: "findAll ''span'' ''itemprop'' (Str ''name'') unnamed_branch = []"
    by code_simp
  have b: "branches SearchResultItem_init = []"
    by (simp add: SearchResultItem_init_def)
  note t = unnamed_branch_appended [of unnamed_branch "[unnamed_branch, named_branch]" SearchResultItem_init]
  have c: "getBranchResultItem unnamed_branch = \<lparr>name = [], items = []\<rparr>"
    using t h by blast
  have d: "branches (add_branches [unnamed_branch, named_branch] SearchResultItem_init) =
             [getBranchResultItem unnamed_branch, getBranchResultItem named_branch]"
    using t b by (simp del: add_branches.simps)
  show ?thesis
    using h c d by (simp del: add_branches.simps)
qed

text \<open>
  The claim of C3 fails on a detail page whose only branch element has no name span:
  the item gets one branch, so something was appended.
\<close>

theorem unnamed_branch_skipped_counterexample:
  "findAll ''span'' ''itemprop'' (Str ''name'') unnamed_branch = []
   \<and> branches (availability (detail_page [unnamed_branch]) SearchResultItem_init) =
        [\<lparr>name = [], items = []\<rparr>]
   \<and> branches (availability (detail_page [unnamed_branch]) SearchResultItem_init) \<noteq>
        branches SearchResultItem_init"
  by code_simp

section \<open>The fetch\<close>

lemma spec_contains_Nil: "spec_contains [] sub = (sub = [])"
  by (auto simp: spec_contains_def)

lemma spec_contains_Cons:
  assumes "take (length sub) (c # cs) \<noteq> sub"
  shows "spec_contains (c # cs) sub = spec_contains cs sub"
proof
  assume "spec_contains (c # cs) sub"
  then obtain pre suf where eq: "c # cs = pre @ sub @ suf"
    by (auto simp: spec_contains_def)
  show "spec_contains cs sub"
  proof (cases pre)
    case Nil
    with eq have "take (length sub) (c # cs) = sub" by simp
    with assms show ?thesis by simp
  next
    case (Cons p ps)
    with eq have "cs = ps @ sub @ suf" by simp
    then show ?thesis unfolding spec_contains_def by blast
  qed
next
  assume "spec_contains cs sub"
  then obtain pre suf where "cs = pre @ sub @ suf"
    by (auto simp: spec_contains_def)
  then have "c # cs = (c # pre) @ sub @ suf" by simp
  then show "spec_contains (c # cs) sub" unfolding spec_contains_def by blast
qed

lemma spec_contains_take:
  assumes "take (length sub) s = sub"
  shows "spec_contains s sub"
proof -
  have "s = [] @ sub @ drop (length sub) s"
    using assms append_take_drop_id [of "length sub" s] by simp
  then show ?thesis unfolding spec_contains_def by blast
qed

lemma find_from_found: "0 \<le> i \<Longrightarrow> (find_from sub s i > - 1) = spec_contains s sub"
proof (induction s arbitrary: i)
  case Nil
  then show ?case by (simp add: spec_contains_Nil)
next
  case (Cons c cs)
  show ?case
  proof (cases "take (length sub) (c # cs) = sub")
    case True
    then show ?thesis using Cons.prems spec_contains_take [OF True] by simp
  next
    case False
    have "(find_from sub cs (i + 1) > - 1) = spec_contains cs sub"
      using Cons.IH [of "i + 1"] Cons.prems by simp
    then show ?thesis using False spec_contains_Cons [OF False] by simp
  qed
qed

lemma find_str_found: "(find_str s sub > - 1) = spec_contains s sub"
  by (simp add: find_str_def find_from_found)

text \<open>
  What \<^verbatim>\<open>simple_get\<close> does on a response that has a \<^verbatim>\<open>Content-Type\<close> header, and on
  a transport error: it raises nothing, and it returns the body exactly when the status
  is 200 and the lowered content type contains \<^verbatim>\<open>html\<close>.
\<close>

lemma simple_get_with_content_type:
  assumes "web url = Response resp"
    and "headers_getitem (headers resp) ''Content-Type'' = Inr ct"
  shows "fst (simple_get web url w) =
           (if status_code resp = 200 \<and> spec_contains (lower ct) ''html''
            then Inr (Some (content resp)) else Inr None)"
  using assms by (simp add: simple_get_def is_good_response_def find_str_found Let_def)

lemma simple_get_request_exception:
  assumes "web url = RequestException e"
  shows "fst (simple_get web url w) = Inr None"
  using assms by (simp add: simple_get_def Let_def)

text \<open>
  C4 fails on a response that has no \<^verbatim>\<open>Content-Type\<close> header: the lookup in
  \<^verbatim>\<open>is_good_response\<close> raises KeyError, which \<^verbatim>\<open>simple_get\<close> does not catch.
\<close>

theorem simple_get_no_content_type_raises:
  "simple_get no_content_type_web ''https://capitadiscovery.co.uk/islington/items/1'' io0 =
     (Inl KeyError,
      \<lparr>fetched = [''https://capitadiscovery.co.uk/islington/items/1''], stdout = []\<rparr>)"
  by code_simp

section \<open>The query and the URLs\<close>

lemma simple_get_logged:
  "simple_get web url w = (r, w1) \<Longrightarrow> invalid_query_logged w1 = invalid_query_logged w"
  by (auto simp: simple_get_def Let_def log_error_def invalid_query_logged_def
      invalid_query_message_def split: http_outcome.splits sum.splits if_splits)

lemma result_step_logged:
  "result_step P W b d found w = (r, w1) \<Longrightarrow> invalid_query_logged w1 = invalid_query_logged w"
  by (auto simp: result_step_def Let_def split: prod.splits sum.splits dest: simple_get_logged)

lemma summary_loop_logged:
  "summary_loop P W b ds found w = (r, w1) \<Longrightarrow> invalid_query_logged w1 = invalid_query_logged w"
proof (induction ds arbitrary: found w)
  case Nil
  then show ?case by simp
next
  case (Cons d ds)
  then show ?case
    by (auto split: prod.splits sum.splits dest: result_step_logged)
qed

lemma results_loop_logged:
  "results_loop P W b srs found w = (r, w1) \<Longrightarrow> invalid_query_logged w1 = invalid_query_logged w"
proof (induction srs arbitrary: found w)
  case Nil
  then show ?case by simp
next
  case (Cons sr srs)
  then show ?case
    by (auto split: prod.splits sum.splits dest: summary_loop_logged)
qed

lemma valid_query_not_logged:
  assumes "truthy t \<or> truthy a"
  shows "invalid_query_logged (snd (CapitaSearch_init P W t a b w)) = invalid_query_logged w"
  using assms
  by (auto simp: CapitaSearch_init_def Let_def split: prod.splits sum.splits
      dest: simple_get_logged results_loop_logged)

lemma invalid_query_result:
  assumes "\<not> truthy t" and "\<not> truthy a"
  shows "CapitaSearch_init P W t a b w =
           (Inr \<lparr>borough_url = [], search_url = [], items_found = [], error_message = []\<rparr>,
            w\<lparr>stdout := stdout w @ [invalid_query_message]\<rparr>)"
  using assms by (simp add: CapitaSearch_init_def log_error_def)

text \<open>
  C5: a search that starts with the message not yet printed fails with InvalidQuery
  exactly when neither the title nor the author is given (whatever the borough); then the
  object has no namespace URL, no search URL, no items and no error message, and the
  outside is as before but for the printed message, so nothing was fetched.
\<close>

theorem invalid_query_iff:
  assumes "\<not> invalid_query_logged w"
  shows "invalid_query_logged (snd (CapitaSearch_init P W t a b w)) = (\<not> truthy t \<and> \<not> truthy a)
    \<and> (\<not> truthy t \<and> \<not> truthy a \<longrightarrow>
         CapitaSearch_init P W t a b w =
           (Inr \<lparr>borough_url = [], search_url = [], items_found = [], error_message = []\<rparr>,
            w\<lparr>stdout := stdout w @ [invalid_query_message]\<rparr>)
         \<and> fetched (snd (CapitaSearch_init P W t a b w)) = fetched w)"
proof (cases "truthy t \<or> truthy a")
  case True
  then show ?thesis using assms valid_query_not_logged [OF True] by auto
next
  case False
  then have f: "\<not> truthy t" "\<not> truthy a" by simp_all
  show ?thesis
    using f by (simp add: invalid_query_result [OF f] invalid_query_logged_def)
qed


theorem invalid_query_iff_witness:
  "\<not> invalid_query_logged io0
   \<and> \<not> truthy (Some []) \<and> \<not> truthy None
   \<and> CapitaSearch_init example_parser offline_web (Some []) None (Some ''islington'') io0 =
        (Inr \<lparr>borough_url = [], search_url = [], items_found = [], error_message = []\<rparr>,
         \<lparr>fetched = [], stdout = [invalid_query_message]\<rparr>)
   \<and> invalid_query_logged
        (snd (CapitaSearch_init example_parser offline_web (Some []) None (Some ''islington'') io0))
   \<and> truthy (Some ''diary'')
   \<and> \<not> invalid_query_logged
        (snd (CapitaSearch_init example_parser offline_web (Some ''diary'') None (Some ''islington'') io0))"
proof -
  have h: "\<not> invalid_query_logged io0"
    by (simp add: invalid_query_logged_def io0_def)
  have t: "\<not> truthy (Some [])" "\<not> truthy None" "truthy (Some ''diary'')"
    by (simp_all add: truthy_def)
  show ?thesis
    using h t
      invalid_query_iff [OF h, of example_parser offline_web "Some []" None "Some ''islington''"]
      invalid_query_iff [OF h, of example_parser offline_web "Some ''diary''" None "Some ''islington''"]
    by (simp add: io0_def invalid_query_logged_def)
qed

lemma search_urls:
  assumes "truthy t \<or> truthy a"
    and "CapitaSearch_init P W t a b w = (Inr s, w1)"
  shows "borough_url s = build_borough_url b
    \<and> search_url s = build_search_url (build_borough_url b) t a"
  using assms
  by (auto simp: CapitaSearch_init_def Let_def split: prod.splits sum.splits if_splits)

text \<open>
  C6: with a title and an author the search URL is the namespace URL, \<^verbatim>\<open>items?query=\<close>,
  the title clause, the author clause joined by \<^verbatim>\<open>+AND\<close> and the anchor
  \<^verbatim>\<open>#availability\<close>; with a title and no author it ends after the title clause; with
  an author and no title nothing follows \<^verbatim>\<open>items?query=\<close>. The clauses are the
  percent-encoded literals of the source around the title and the author as given. It is
  the search URL of every object the constructor returns for a valid query.
\<close>

theorem search_url_shape:
  "(t \<noteq> [] \<and> a \<noteq> [] \<longrightarrow>
      build_search_url u (Some t) (Some a) =
        u @ ''items?query='' @ ''+title%3A%28'' @ t @ ''%29'' @ ''+AND'' @
        ''+author%3A%28'' @ a @ ''%29'' @ ''#availability'')
   \<and> (t \<noteq> [] \<and> \<not> truthy a' \<longrightarrow>
        build_search_url u (Some t) a' = u @ ''items?query='' @ ''+title%3A%28'' @ t @ ''%29'')
   \<and> (a \<noteq> [] \<and> \<not> truthy t' \<longrightarrow>
        build_search_url u t' (Some a) = u @ ''items?query='')
   \<and> (\<forall>s w1. (truthy t'' \<or> truthy a'') \<and> CapitaSearch_init P W t'' a'' b w = (Inr s, w1) \<longrightarrow>
        borough_url s = build_borough_url b
        \<and> search_url s = build_search_url (build_borough_url b) t'' a'')"
proof -
  have 1: "t \<noteq> [] \<and> a \<noteq> [] \<longrightarrow>
      build_search_url u (Some t) (Some a) =
        u @ ''items?query='' @ ''+title%3A%28'' @ t @ ''%29'' @ ''+AND'' @
        ''+author%3A%28'' @ a @ ''%29'' @ ''#availability''"
    by (simp add: build_search_url_def truthy_def)
  have 2: "t \<noteq> [] \<and> \<not> truthy a' \<longrightarrow>
        build_search_url u (Some t) a' = u @ ''items?query='' @ ''+title%3A%28'' @ t @ ''%29''"
    by (cases a') (simp_all add: build_search_url_def truthy_def)
  have 3: "a \<noteq> [] \<and> \<not> truthy t' \<longrightarrow>
        build_search_url u t' (Some a) = u @ ''items?query=''"
    by (cases t') (simp_all add: build_search_url_def truthy_def)
  have 4: "\<forall>s w1. (truthy t'' \<or> truthy a'') \<and> CapitaSearch_init P W t'' a'' b w = (Inr s, w1) \<longrightarrow>
        borough_url s = build_borough_url b
        \<and> search_url s = build_search_url (build_borough_url b) t'' a''"
    using search_urls by blast
  from 1 2 3 4 show ?thesis by blast
qed

theorem search_url_shape_witness:
  "build_search_url ''https://capitadiscovery.co.uk/islington/'' (Some ''diary of a nobody'') (Some ''grossmith'') =
     ''https://capitadiscovery.co.uk/islington/items?query=+title%3A%28diary of a nobody%29+AND+author%3A%28grossmith%29#availability''
   \<and> build_search_url ''https://capitadiscovery.co.uk/islington/'' (Some ''diary of a nobody'') (Some []) =
     ''https://capitadiscovery.co.uk/islington/items?query=+title%3A%28diary of a nobody%29''
   \<and> build_search_url ''https://capitadiscovery.co.uk/islington/'' None (Some ''grossmith'') =
     ''https://capitadiscovery.co.uk/islington/items?query=''
   \<and> fst (CapitaSearch_init example_parser offline_web (Some ''diary'') (Some ''grossmith'') None io0) =
     Inr \<lparr>borough_url = ''https://capitadiscovery.co.uk/islington/'',
          search_url = ''https://capitadiscovery.co.uk/islington/items?query=+title%3A%28diary%29+AND+author%3A%28grossmith%29#availability'',
          items_found = [], error_message = ''could not get web page''\<rparr>"
proof -
  have r: "fst (CapitaSearch_init example_parser offline_web (Some ''diary'') (Some ''grossmith'') None io0) =
     Inr \<lparr>borough_url = ''https://capitadiscovery.co.uk/islington/'',
          search_url = ''https://capitadiscovery.co.uk/islington/items?query=+title%3A%28diary%29+AND+author%3A%28grossmith%29#availability'',
          items_found = [], error_message = ''could not get web page''\<rparr>"
    by code_simp
  note sh = search_url_shape [of "''diary of a nobody''" "''grossmith''"
      "''https://capitadiscovery.co.uk/islington/''" "Some []" None
      "Some ''diary''" "Some ''grossmith''" example_parser offline_web None io0]
  have a: "build_search_url ''https://capitadiscovery.co.uk/islington/'' (Some ''diary of a nobody'') (Some ''grossmith'') =
     ''https://capitadiscovery.co.uk/islington/items?query=+title%3A%28diary of a nobody%29+AND+author%3A%28grossmith%29#availability''"
    using sh by simp
  have b: "build_search_url ''https://capitadiscovery.co.uk/islington/'' (Some ''diary of a nobody'') (Some []) =
     ''https://capitadiscovery.co.uk/islington/items?query=+title%3A%28diary of a nobody%29''"
    using sh by (simp add: truthy_def)
  have c: "build_search_url ''https://capitadiscovery.co.uk/islington/'' None (Some ''grossmith'') =
     ''https://capitadiscovery.co.uk/islington/items?query=''"
    using sh by (simp add: truthy_def)
  show ?thesis using a b c r by simp
qed

text \<open>
  For a valid query, when \<^verbatim>\<open>simple_get\<close> returns \<^verbatim>\<open>None\<close> for the listing page, the
  constructor returns an object with the error message \<^verbatim>\<open>could not get web page\<close>, no
  items, and the namespace URL and the search URL it built, neither of them empty.
\<close>

lemma listing_fetch_failure:
  assumes "truthy t \<or> truthy a"
    and "simple_get W (build_search_url (build_borough_url b) t a) w = (Inr None, w1)"
  shows "CapitaSearch_init P W t a b w =
           (Inr \<lparr>borough_url = build_borough_url b,
                 search_url = build_search_url (build_borough_url b) t a,
                 items_found = [], error_message = ''could not get web page''\<rparr>, w1)
    \<and> build_borough_url b \<noteq> []
    \<and> build_search_url (build_borough_url b) t a \<noteq> []"
proof -
  have 1: "CapitaSearch_init P W t a b w =
           (Inr \<lparr>borough_url = build_borough_url b,
                 search_url = build_search_url (build_borough_url b) t a,
                 items_found = [], error_message = ''could not get web page''\<rparr>, w1)"
    using assms by (simp add: CapitaSearch_init_def truthy_def)
  have 2: "build_borough_url b \<noteq> []"
    by (simp add: build_borough_url_def capita_url_def)
  have 3: "build_search_url (build_borough_url b) t a \<noteq> []"
    using 2 by (simp add: build_search_url_def Let_def split: option.splits)
  from 1 2 3 show ?thesis by simp
qed

lemma listing_fetch_failure_offline:
  "truthy (Some ''diary'')
   \<and> simple_get offline_web diary_search_url io0 =
        (Inr None, \<lparr>fetched = [diary_search_url],
           stdout = [''Error during requests to '' @ diary_search_url @ '' : Connection refused'']\<rparr>)
   \<and> CapitaSearch_init example_parser offline_web (Some ''diary'') None None io0 =
        (Inr \<lparr>borough_url = ''https://capitadiscovery.co.uk/islington/'',
              search_url = diary_search_url,
              items_found = [], error_message = ''could not get web page''\<rparr>,
         \<lparr>fetched = [diary_search_url],
           stdout = [''Error during requests to '' @ diary_search_url @ '' : Connection refused'']\<rparr>)"
proof -
  have u: "build_borough_url None = ''https://capitadiscovery.co.uk/islington/''"
    by code_simp
  have v: "build_search_url (build_borough_url None) (Some ''diary'') None = diary_search_url"
    by code_simp
  have g: "simple_get offline_web (build_search_url (build_borough_url None) (Some ''diary'') None) io0 =
        (Inr None, \<lparr>fetched = [diary_search_url],
           stdout = [''Error during requests to '' @ diary_search_url @ '' : Connection refused'']\<rparr>)"
    by code_simp
  have h: "truthy (Some ''diary'') \<or> truthy None"
    by (simp add: truthy_def)
  show ?thesis
    using listing_fetch_failure [OF h g, of example_parser] g h u v by (simp add: truthy_def)
qed

text \<open>
  C7 fails on a listing page that is answered without a \<^verbatim>\<open>Content-Type\<close> header: the
  fetch fails with the KeyError of \<^verbatim>\<open>is_good_response\<close>, which leaves \<^verbatim>\<open>simple_get\<close>
  and the constructor, so there is no result set and no error message.
\<close>

theorem listing_without_content_type_raises:
  "truthy (Some ''diary'')
   \<and> simple_get no_content_type_web diary_search_url io0 =
        (Inl KeyError, \<lparr>fetched = [diary_search_url], stdout = []\<rparr>)
   \<and> CapitaSearch_init example_parser no_content_type_web (Some ''diary'') None None io0 =
        (Inl KeyError, \<lparr>fetched = [diary_search_url], stdout = []\<rparr>)"
  by code_simp

section \<open>The detail pages\<close>

text \<open>
  An item whose anchor gives no item id keeps the sentinel id and link; its title is
  still read from the anchor.
\<close>

lemma listing_fields_no_id:
  assumes "select (TagClass ''h2'' ''title'') d = h2 # h2s"
    and "select (Tag ''a'') h2 = anchor # anchors"
    and "re_search_items (get_attr anchor ''href'' ''NOT FOUND'') = None"
  shows "item_id (listing_fields u d) = ''default'' \<and> link (listing_fields u d) = ''default''
    \<and> title (listing_fields u d) = get_attr anchor ''title'' ''NOT FOUND''
    \<and> available (listing_fields u d) = ''default'' \<and> branches (listing_fields u d) = []"
  using assms
  by (simp add: listing_fields_def SearchResultItem_init_def Let_def split: list.splits)

text \<open>
  When the fetch of a detail page yields no document, \<^verbatim>\<open>BeautifulSoup\<close> is called on
  \<^verbatim>\<open>None\<close> and the TypeError leaves the loops and the constructor.
\<close>

lemma result_step_absent_document:
  assumes "simple_get W (link (listing_fields u d)) w = (Inr None, w1)"
  shows "result_step P W u d found w = (Inl TypeError, w1)"
  using assms by (simp add: result_step_def BeautifulSoup_def)

lemma summary_loop_raises:
  assumes "result_step P W u d found w = (Inl e, w1)"
  shows "summary_loop P W u (d # ds) found w = (Inl e, w1)"
  using assms by simp

text \<open>
  C1 fails on a listing page whose only result has a link without an item id: the item
  keeps the sentinel id and link and gets its title and publisher, but the detail page is
  fetched all the same, from the URL \<^verbatim>\<open>default\<close>; the fetch yields no document and the
  constructor ends with a TypeError, so no item results.
\<close>

theorem no_id_item_raises:
  "re_search_items ''/islington/account'' = None
   \<and> listing_fields ''https://capitadiscovery.co.uk/islington/'' (result_block ''/islington/account'') =
        \<lparr>item_id = ''default'', title = ''Diary'', publisher = ''Penguin'', link = ''default'',
         summary = ''default'', available = ''default'', branches = []\<rparr>
   \<and> CapitaSearch_init example_parser no_id_web (Some ''diary'') None None io0 =
        (Inl TypeError,
         \<lparr>fetched = [diary_search_url, ''default''],
          stdout = [''Error during requests to default : Invalid URL 'default': No scheme supplied. Perhaps you meant https://default?'']\<rparr>)"
  by code_simp

text \<open>
  C2 fails on a listing page of three results where the detail page of the second is
  answered with status 404: its fetch yields no document and the constructor ends with a
  TypeError after the second fetch, so there is no result set. With that detail page
  served, the same search returns the three items.
\<close>

theorem failed_detail_fetch_raises:
  "fst (simple_get one_missing_web ''https://capitadiscovery.co.uk/islington/items/102'' io0) = Inr None
   \<and> CapitaSearch_init example_parser one_missing_web (Some ''diary'') None None io0 =
        (Inl TypeError,
         \<lparr>fetched = [diary_search_url, ''https://capitadiscovery.co.uk/islington/items/101'',
                     ''https://capitadiscovery.co.uk/islington/items/102''],
          stdout = []\<rparr>)
   \<and> (case fst (CapitaSearch_init example_parser all_served_web (Some ''diary'') None None io0) of
         Inl e \<Rightarrow> False
       | Inr s \<Rightarrow> map item_id (items_found s) = [''101'', ''102'', ''103''])"
  by code_simp

end
